theory Spec2Isabelle
  imports Main "HOL-Library.Word"
begin

unbundle bit_operations_syntax

section \<open>anerd: the Asynchronous Network Exchange Randomness Daemon\<close>

text \<open>
  A shallow embedding of \<^verbatim>\<open>anerd.c\<close>: the Responder \<^verbatim>\<open>anerd_server\<close> and the Donor
  \<^verbatim>\<open>anerd_client\<close>. Every call into the operating system or the C library that the two
  functions make is an \<^emph>\<open>event\<close> of a trace, in program order; whatever such a call hands
  back to the program (a datagram, a time stamp, the bytes the pool device delivers, a
  return code) is an input of the model. The C \<^verbatim>\<open>int\<close>s \<^verbatim>\<open>size\<close>, \<^verbatim>\<open>port\<close>, \<^verbatim>\<open>interval\<close>,
  \<^verbatim>\<open>sock\<close> and \<^verbatim>\<open>bytes_read\<close> are never computed with, only compared and passed on, and
  are of type \<open>int\<close>; the two time stamps are multiplied and are 32-bit words. The
  source's \<^verbatim>\<open>size\<close> is written \<open>size'\<close> in formulas, \<open>size\<close> being a constant of HOL.
\<close>

subsection \<open>Data\<close>

type_synonym byte = "8 word"

datatype sockaddr_in = Sockaddr (sin_addr: "32 word") (sin_port: "16 word")

record timeval =
  tv_sec :: int
  tv_usec :: int

text \<open>
  One constructor per library call with an effect outside the process. \<open>Recvfrom n bs\<close>:
  \<^verbatim>\<open>recvfrom\<close> returned \<open>n\<close> and copied \<open>bs\<close> to the front of the buffer. \<open>Store_nul i\<close>: the
  assignment \<^verbatim>\<open>data[i] = '\0'\<close>. \<open>Syslog tag n a\<close>: the log line that starts with \<open>tag\<close>,
  with its byte count and address. \<open>Fwrite bs\<close>: \<open>bs\<close> handed to the pool stream.
  \<open>Fread n bs\<close>: \<open>fread\<close> called with the count \<open>n\<close> on the pool stream, \<open>bs\<close> obtained.
  \<open>Sendto s bs a\<close>: the datagram \<open>bs\<close> sent on socket \<open>s\<close> to \<open>a\<close>.
\<close>

datatype event =
    Perror string
  | Syslog string int sockaddr_in
  | Fopen string string
  | Bind int "16 word"
  | Recvfrom int "byte list"
  | Store_nul int
  | Fflush_stdout
  | Fwrite "byte list"
  | Fflush
  | Fread int "byte list"
  | Sendto int "byte list" sockaddr_in
  | Sleep int
  | Close int
  | Free
  | Fclose

text \<open>
  How a run ends: \<^verbatim>\<open>exit(c)\<close>, \<^verbatim>\<open>return c\<close>, or still inside its loop when the inputs
  of the model are used up (\<open>Running\<close>).
\<close>

datatype outcome = Exited int | Returned int | Running

subsection \<open>The salt\<close>

text \<open>
  \<^verbatim>\<open>last_usec = 1000000 * tv.tv_usec + tv.tv_usec\<close>: computed in \<^verbatim>\<open>long\<close> and stored in an
  \<^verbatim>\<open>int\<close>, that is, reduced modulo \<open>2 ^ 32\<close>. Only the microsecond field is read.
\<close>

definition usec_stamp :: "timeval \<Rightarrow> 32 word" where
  "usec_stamp tv = word_of_int (1000000 * tv_usec tv + tv_usec tv)"

text \<open>
  \<^verbatim>\<open>salt = last_usec * this_usec\<close>: the product of two \<^verbatim>\<open>int\<close>s, converted to \<^verbatim>\<open>double\<close>.
  The product wraps around as two's complement multiplication does; its signed value has
  fewer than 53 bits, so the conversion is exact and the salt is that integer.
\<close>

definition salt_of :: "32 word \<Rightarrow> 32 word \<Rightarrow> int" where
  "salt_of last_usec this_usec = sint (last_usec * this_usec)"

text \<open>
  \<^verbatim>\<open>fwrite(&salt, sizeof(double), 1, fp)\<close> writes the object representation of the salt:
  IEEE 754 binary64, least significant byte first. For an integer \<open>v\<close> other than 0 and
  below \<open>2 ^ 53\<close> in absolute value, with \<open>2 ^ e \<le> \<bar>v\<bar> < 2 ^ (e + 1)\<close>, the 64 bits are the
  sign, the exponent field \<open>1023 + e\<close> and the 52 bits of \<open>\<bar>v\<bar> * 2 ^ (52 - e)\<close> below its
  leading one.
\<close>

function msb_index :: "int \<Rightarrow> nat" where
  "msb_index n = (if n < 2 then 0 else Suc (msb_index (n div 2)))"
  by pat_completeness auto
termination
  by (relation "measure nat") auto

declare msb_index.simps [simp del]

definition double_bits :: "int \<Rightarrow> 64 word" where
  "double_bits v =
     (if v = 0 then 0
      else let a = \<bar>v\<bar>; e = msb_index a
           in word_of_int ((if v < 0 then 2 ^ 63 else 0)
                           + (1023 + int e) * 2 ^ 52
                           + (a * 2 ^ (52 - e) - 2 ^ 52)))"

definition double_bytes :: "int \<Rightarrow> byte list" where
  "double_bytes v = map (\<lambda>i. ucast (drop_bit (8 * i) (double_bits v))) [0..<8]"

text \<open>
  Reading eight bytes back as a number. \<open>le_int\<close> is the unsigned integer that bytes
  denote, least significant first. \<open>binary64_int n\<close> is the integer that the 64 bits \<open>n\<close>
  denote as a binary64 number, when they denote an integer below \<open>2 ^ 53\<close> in absolute
  value: with sign \<open>s\<close>, exponent field \<open>e\<close> and fraction field \<open>m\<close> the number is
  \<open>(-1) ^ s * (2 ^ 52 + m) * 2 ^ (e - 1075)\<close>, and 0 when \<open>e\<close> and \<open>m\<close> are 0.
\<close>

definition le_int :: "byte list \<Rightarrow> int" where
  "le_int bs = foldr (\<lambda>b n. uint b + 256 * n) bs 0"

definition binary64_int :: "int \<Rightarrow> int option" where
  "binary64_int n =
     (let s = n div 2 ^ 63; e = (n div 2 ^ 52) mod 2048; m = n mod 2 ^ 52
      in if e = 0 \<and> m = 0 then Some 0
         else if 1023 \<le> e \<and> e \<le> 1075 \<and> (2 ^ 52 + m) mod 2 ^ nat (1075 - e) = 0
         then Some ((if s = 0 then 1 else - 1) * ((2 ^ 52 + m) div 2 ^ nat (1075 - e)))
         else None)"

subsection \<open>The buffer\<close>

text \<open>
  \<^verbatim>\<open>data = calloc(size, sizeof(char))\<close> is a list of \<open>size\<close> bytes. \<^verbatim>\<open>data[idx]\<close> lies in
  the allocation when \<open>0 \<le> idx < size\<close>. (In C a negative \<open>size\<close> never gets past
  \<^verbatim>\<open>calloc\<close>, which cannot provide \<^verbatim>\<open>(size_t)size\<close> bytes; where the functions below are
  given one, the buffer is empty.)
\<close>

definition in_bounds :: "int \<Rightarrow> int \<Rightarrow> bool" where
  "in_bounds size' idx = (0 \<le> idx \<and> idx < size')"

text \<open>
  \<^verbatim>\<open>data[idx] = '\0'\<close>. Inside the allocation the byte is set. At \<open>idx = size\<close> the store
  hits the byte that follows the allocation, which the model keeps beside the buffer
  (\<open>past_end\<close>). At a negative index it hits memory in front of the buffer, which the model
  does not hold.
\<close>

definition store_nul :: "byte list \<Rightarrow> byte \<Rightarrow> int \<Rightarrow> byte list \<times> byte" where
  "store_nul d pe idx =
     (if 0 \<le> idx \<and> idx < int (length d) then (d[nat idx := 0], pe)
      else if idx = int (length d) then (d, 0)
      else (d, pe))"

text \<open>
  \<^verbatim>\<open>strlen\<close> over the bytes of memory it is given: the number of bytes in front of the first
  zero byte, \<open>None\<close> when it runs off their end.
\<close>

definition strlen :: "byte list \<Rightarrow> nat option" where
  "strlen m = (if 0 \<in> set m then Some (length (takeWhile (\<lambda>b. b \<noteq> 0) m)) else None)"

text \<open>
  The memory that the Responder's calls reach through \<^verbatim>\<open>data\<close> is, in the model, the
  buffer \<open>d\<close> and the byte \<open>pe\<close> behind it. The Responder passes \<^verbatim>\<open>bytes_read\<close> as the count
  of \<^verbatim>\<open>fwrite\<close> and \<^verbatim>\<open>fread\<close>, where it is read as a \<^verbatim>\<open>size_t\<close> of 64 bits: \<open>-1\<close> becomes
  \<open>2 ^ 64 - 1\<close>. A count within the buffer stays within the model. A larger one (there is
  none but \<open>2 ^ 64 - 1\<close>, after a failed \<^verbatim>\<open>recvfrom\<close>) reaches memory behind \<open>pe\<close> that the
  model does not hold: then the bytes of a read from memory are those the model holds,
  and a write into memory changes those the model holds.
\<close>

definition size_t_of :: "int \<Rightarrow> int" where
  "size_t_of n = (if n < 0 then n + 2 ^ 64 else n)"

text \<open>
  The first \<open>count\<close> bytes of \<open>bs\<close>, the count read as a \<^verbatim>\<open>size_t\<close>: all of \<open>bs\<close> when
  there are no more than that.
\<close>

definition first_bytes :: "int \<Rightarrow> byte list \<Rightarrow> byte list" where
  "first_bytes count bs =
     (if int (length bs) \<le> size_t_of count then bs else take (nat (size_t_of count)) bs)"

text \<open>The first \<open>count\<close> bytes at \<^verbatim>\<open>data\<close>, as \<^verbatim>\<open>fwrite(data, 1, count, fp)\<close> reads them.\<close>

definition mem_bytes :: "byte list \<Rightarrow> byte \<Rightarrow> int \<Rightarrow> byte list" where
  "mem_bytes d pe count = first_bytes count (d @ [pe])"

text \<open>
  \<^verbatim>\<open>fread(data, 1, count, fp)\<close> in the Responder: of the bytes \<open>dev\<close> that the device
  delivers, at most \<open>count\<close> are stored from \<^verbatim>\<open>data[0]\<close> on. The result is the bytes
  obtained, the buffer and the byte behind it.
\<close>

definition fread_mem ::
  "byte list \<Rightarrow> byte \<Rightarrow> int \<Rightarrow> byte list \<Rightarrow> byte list \<times> byte list \<times> byte" where
  "fread_mem d pe count dev =
     (let got = first_bytes count dev
      in (got, take (length d) (got @ drop (length got) d),
          if length d < length got then got ! length d else pe))"

text \<open>
  The bytes that \<^verbatim>\<open>sendto(sock, data, strlen(data), ...)\<close> sends: those in front of the
  first zero byte. When neither the buffer nor the byte behind it holds a zero byte,
  \<^verbatim>\<open>strlen\<close> runs on into memory the model does not hold, and the bytes are those that
  the model holds.
\<close>

definition c_string :: "byte list \<Rightarrow> byte \<Rightarrow> byte list" where
  "c_string d pe = (case strlen (d @ [pe]) of Some k \<Rightarrow> take k d | None \<Rightarrow> d @ [pe])"

subsection \<open>Receiving and reading\<close>

datatype rx = Rx_error | Datagram "byte list" sockaddr_in

text \<open>
  \<^verbatim>\<open>recvfrom(sock, data, size, 0, &client_addr, &addr_len)\<close>: on an error \<open>-1\<close>, buffer and
  address untouched; otherwise the first \<open>size\<close> bytes of the datagram go to the front of the
  buffer, their number is returned and the sender's address is stored.
\<close>

definition recvfrom :: "int \<Rightarrow> byte list \<Rightarrow> sockaddr_in \<Rightarrow> rx \<Rightarrow> int \<times> byte list \<times> sockaddr_in" where
  "recvfrom size' d addr r =
     (case r of
        Rx_error \<Rightarrow> (- 1, d, addr)
      | Datagram p a \<Rightarrow>
          (let got = take (nat size') p
           in (int (length got), got @ drop (length got) d, a)))"

text \<open>
  \<^verbatim>\<open>fread(data, 1, size, fp)\<close> in the Donor: of the bytes \<open>dev\<close> the device delivers, at
  most \<open>count\<close> go to the front of the buffer; the rest of the buffer keeps what it held.
\<close>

definition fread_into :: "byte list \<Rightarrow> int \<Rightarrow> byte list \<Rightarrow> byte list \<times> byte list" where
  "fread_into d count dev =
     (let got = take (nat count) dev in (got, got @ drop (length got) d))"

subsection \<open>The Responder\<close>

text \<open>
  What one iteration of the Responder's loop takes from outside: the result of
  \<^verbatim>\<open>recvfrom\<close>, the reading of \<^verbatim>\<open>gettimeofday\<close>, the bytes the pool device delivers to
  \<^verbatim>\<open>fread\<close>, and the return value of \<^verbatim>\<open>sendto\<close>.
\<close>

record server_input =
  rx :: rx
  now :: timeval
  pool_out :: "byte list"
  tx_res :: int

text \<open>The variables that live across iterations.\<close>

record server_state =
  last_usec :: "32 word"
  data :: "byte list"
  past_end :: byte
  client_addr :: sockaddr_in

text \<open>
  The body of \<^verbatim>\<open>while (1)\<close>, statement by statement. \<^verbatim>\<open>bytes_read\<close> is used unchecked,
  as an index and as a count; after a failed \<^verbatim>\<open>recvfrom\<close> the iteration goes on like any
  other. The return values of \<^verbatim>\<open>fwrite\<close>, \<^verbatim>\<open>fflush\<close>, \<^verbatim>\<open>fread\<close> and \<^verbatim>\<open>sendto\<close> are
  discarded by the code and so never read here. The reply is \<^verbatim>\<open>strlen(data)\<close> bytes long.
\<close>

definition anerd_server_iter ::
  "int \<Rightarrow> int \<Rightarrow> server_state \<Rightarrow> server_input \<Rightarrow> event list \<times> server_state" where
  "anerd_server_iter sock size' st inp =
     (case recvfrom size' (data st) (client_addr st) (rx inp) of
        (bytes_read, d1, peer) \<Rightarrow>
          (case store_nul d1 (past_end st) bytes_read of
             (d2, pe) \<Rightarrow>
               (let this_usec = usec_stamp (now inp);
                    salt = salt_of (last_usec st) this_usec
                in case fread_mem d2 pe bytes_read (pool_out inp) of
                     (got, d3, pe') \<Rightarrow>
                       ([Recvfrom bytes_read (take (nat bytes_read) d1), Store_nul bytes_read,
                         Syslog ''Received'' bytes_read peer, Fflush_stdout,
                         Fwrite (mem_bytes d2 pe bytes_read),
                         Fwrite (double_bytes salt), Fflush,
                         Fread bytes_read got,
                         Sendto sock (c_string d3 pe') peer,
                         Syslog ''Transmit'' bytes_read peer],
                        \<lparr>last_usec = this_usec, data = d3, past_end = pe',
                         client_addr = peer\<rparr>))))"

text \<open>
  The loop over the inputs of successive iterations. It has no exit: when the inputs are
  used up the Responder is waiting in \<^verbatim>\<open>recvfrom\<close>.
\<close>

fun anerd_server_loop ::
  "int \<Rightarrow> int \<Rightarrow> server_state \<Rightarrow> server_input list \<Rightarrow> event list \<times> outcome" where
  "anerd_server_loop sock size' st [] = ([], Running)"
| "anerd_server_loop sock size' st (inp # ins) =
     (case anerd_server_iter sock size' st inp of
        (evs, st') \<Rightarrow>
          (case anerd_server_loop sock size' st' ins of
             (evs', r) \<Rightarrow> (evs @ evs', r)))"

text \<open>
  What the set-up of the Responder takes from outside: the results of \<^verbatim>\<open>socket\<close>,
  \<^verbatim>\<open>fopen\<close>, \<^verbatim>\<open>calloc\<close> and \<^verbatim>\<open>bind\<close>, the first reading of the clock, and what the
  uninitialised memory holds (the byte behind the buffer, \<^verbatim>\<open>client_addr\<close>).
\<close>

record server_env =
  srv_socket :: int
  srv_fopen :: bool
  srv_calloc :: bool
  srv_bind :: int
  srv_time :: timeval
  srv_past_end :: byte
  srv_addr :: sockaddr_in

definition anerd_server ::
  "string \<Rightarrow> int \<Rightarrow> int \<Rightarrow> server_env \<Rightarrow> server_input list \<Rightarrow> event list \<times> outcome" where
  "anerd_server device size' port env ins =
     (if srv_socket env = - 1 then ([Perror ''Socket''], Exited 1)
      else if \<not> srv_fopen env then ([Fopen device ''a+'', Perror ''fopen''], Exited 1)
      else if \<not> srv_calloc env then ([Fopen device ''a+'', Perror ''calloc''], Exited 1)
      else if srv_bind env = - 1 then
        ([Fopen device ''a+'', Bind (srv_socket env) (word_of_int port), Perror ''Bind''],
         Exited 1)
      else
        (case anerd_server_loop (srv_socket env) size'
                \<lparr>last_usec = usec_stamp (srv_time env), data = replicate (nat size') 0,
                 past_end = srv_past_end env, client_addr = srv_addr env\<rparr> ins of
           (evs, r) \<Rightarrow>
             ([Fopen device ''a+'', Bind (srv_socket env) (word_of_int port)] @ evs, r)))"

subsection \<open>The Donor\<close>

text \<open>
  What one cycle of the Donor takes from outside: the bytes the pool device delivers to
  \<^verbatim>\<open>fread\<close> and the return value of \<^verbatim>\<open>sendto\<close>.
\<close>

record client_input =
  cl_pool_out :: "byte list"
  cl_tx_res :: int

text \<open>
  \<^verbatim>\<open>while (interval > 0)\<close> and the clean-up behind it. The datagram is
  \<^verbatim>\<open>size\<close> bytes of the buffer whatever \<^verbatim>\<open>fread\<close> returned, as long as it is positive.
\<close>

fun anerd_client_loop ::
  "int \<Rightarrow> int \<Rightarrow> int \<Rightarrow> sockaddr_in \<Rightarrow> byte list \<Rightarrow> client_input list \<Rightarrow> event list \<times> outcome" where
  "anerd_client_loop sock size' interval addr d [] =
     (if interval > 0 then ([], Running)
      else ([Close sock, Free, Fclose], Returned 0))"
| "anerd_client_loop sock size' interval addr d (c # cs) =
     (if interval > 0 then
        (case fread_into d size' (cl_pool_out c) of
           (got, d') \<Rightarrow>
             (case anerd_client_loop sock size' interval addr d' cs of
                (evs', r) \<Rightarrow>
                  ((if length got > 0
                    then [Fread size' got, Syslog ''Donated'' size' addr,
                          Sendto sock (take (nat size') d') addr]
                    else [Fread size' got, Perror ''fread''])
                   @ [Sleep interval] @ evs', r)))
      else ([Close sock, Free, Fclose], Returned 0))"

text \<open>
  What the set-up of the Donor takes from outside: the results of \<^verbatim>\<open>calloc\<close>, \<^verbatim>\<open>socket\<close>,
  \<^verbatim>\<open>setsockopt\<close> and \<^verbatim>\<open>fopen\<close>.
\<close>

record client_env =
  cl_calloc :: bool
  cl_socket :: int
  cl_setsockopt :: int
  cl_fopen :: bool

text \<open>\<^verbatim>\<open>INADDR_BROADCAST\<close> and \<^verbatim>\<open>htons(port)\<close>.\<close>

definition broadcast_addr :: "int \<Rightarrow> sockaddr_in" where
  "broadcast_addr port = Sockaddr (- 1) (word_of_int port)"

definition anerd_client ::
  "string \<Rightarrow> int \<Rightarrow> int \<Rightarrow> int \<Rightarrow> client_env \<Rightarrow> client_input list \<Rightarrow> event list \<times> outcome" where
  "anerd_client device size' port interval env cs =
     (if \<not> cl_calloc env then ([Perror ''calloc''], Exited 1)
      else
        (let sock = cl_socket env;
             evs1 = (if sock = - 1 then [Perror ''socket''] else []);
             evs2 = (if cl_setsockopt env = - 1 then [Perror ''setsockopt (SO_BROADCAST)'']
                     else [])
         in if \<not> cl_fopen env then
              (evs1 @ evs2 @ [Fopen device ''r'', Perror ''fopen'', Close sock], Exited 1)
            else
              (case anerd_client_loop sock size' interval (broadcast_addr port)
                      (replicate (nat size') 0) cs of
                 (evs, r) \<Rightarrow> (evs1 @ evs2 @ [Fopen device ''r''] @ evs, r))))"

subsection \<open>Reading traces\<close>

fun is_sendto :: "event \<Rightarrow> bool" where
  "is_sendto (Sendto s bs a) = True"
| "is_sendto e = False"

fun is_recvfrom :: "event \<Rightarrow> bool" where
  "is_recvfrom (Recvfrom n bs) = True"
| "is_recvfrom e = False"

text \<open>
  An event that reports an error: a \<^verbatim>\<open>perror\<close> line, or a log line whose byte count is
  negative.
\<close>

fun is_error_report :: "event \<Rightarrow> bool" where
  "is_error_report (Perror s) = True"
| "is_error_report (Syslog tag n a) = (n < 0)"
| "is_error_report e = False"

text \<open>
  Whether an event respects a buffer of \<open>size\<close> bytes: a store \<^verbatim>\<open>data[i] = '\0'\<close> does when
  \<open>i\<close> is one of its indices; no other event touches memory by index.
\<close>

fun store_ok :: "int \<Rightarrow> event \<Rightarrow> bool" where
  "store_ok size' (Store_nul i) = in_bounds size' i"
| "store_ok size' e = True"

section \<open>The salt bytes\<close>

lemma length_double_bytes: "length (double_bytes v) = 8"
  by (simp add: double_bytes_def)

lemma msb_index_bounds: "0 < a \<Longrightarrow> 2 ^ msb_index a \<le> a \<and> a < 2 * 2 ^ msb_index a"
proof (induction a rule: msb_index.induct)
  case (1 n)
  show ?case
  proof (cases "n < 2")
    case True
    with "1.prems" show ?thesis by (simp add: msb_index.simps [of n])
  next
    case False
    then have "0 < n div 2" by simp
    from "1.IH" [OF False this] have "2 ^ msb_index (n div 2) \<le> n div 2"
      and "n div 2 < 2 * 2 ^ msb_index (n div 2)" by simp_all
    then have "2 * 2 ^ msb_index (n div 2) \<le> n" and "n < 2 * (2 * 2 ^ msb_index (n div 2))"
      by linarith+
    with False show ?thesis by (simp add: msb_index.simps [of n])
  qed
qed

lemma uint_byte_of: "uint (ucast (drop_bit k (w :: 64 word)) :: byte) = (uint w div 2 ^ k) mod 256"
proof -
  have "uint (ucast (drop_bit k w) :: byte) = take_bit 8 (drop_bit k (uint w))"
    using uint_lt2p [of w]
    by (simp only: unsigned_ucast_eq unsigned_drop_bit_eq) (simp add: take_bit_int_eq_self)
  then show ?thesis
    by (simp add: take_bit_eq_mod drop_bit_eq_div)
qed

lemma horner_bytes:
  "foldr (\<lambda>i n. (x div 2 ^ (8 * i)) mod 256 + 256 * n) [j..<j + k] 0
   = (x div 2 ^ (8 * j)) mod 256 ^ k" for x :: int
proof (induction k arbitrary: j)
  case 0
  then show ?case by simp
next
  case (Suc k)
  have "[j..<j + Suc k] = j # [Suc j..<Suc j + k]"
    by (simp add: upt_rec)
  then have "foldr (\<lambda>i n. (x div 2 ^ (8 * i)) mod 256 + 256 * n) [j..<j + Suc k] 0
             = (x div 2 ^ (8 * j)) mod 256 + 256 * ((x div 2 ^ (8 * Suc j)) mod 256 ^ k)"
    using Suc.IH [of "Suc j"] by simp
  also have "x div 2 ^ (8 * Suc j) = (x div 2 ^ (8 * j)) div 256"
  proof -
    have "(2::int) ^ (8 * Suc j) = 2 ^ (8 * j) * 256"
      by (simp add: power_add)
    then show ?thesis
      by (simp only: zdiv_zmult2_eq)
  qed
  also have "(x div 2 ^ (8 * j)) mod 256 + 256 * ((x div 2 ^ (8 * j)) div 256 mod 256 ^ k)
             = (x div 2 ^ (8 * j)) mod 256 ^ Suc k"
    using zmod_zmult2_eq [of "256 ^ k" "x div 2 ^ (8 * j)" 256] by simp
  finally show ?case .
qed

lemma le_int_bytes: "le_int (map (\<lambda>i. ucast (drop_bit (8 * i) (w :: 64 word))) [0..<8]) = uint w"
proof -
  have "le_int (map (\<lambda>i. ucast (drop_bit (8 * i) w)) [0..<8])
        = foldr (\<lambda>i n. (uint w div 2 ^ (8 * i)) mod 256 + 256 * n) [0..<0 + 8] 0"
    by (simp add: le_int_def foldr_map comp_def uint_byte_of)
  also have "\<dots> = (uint w div 2 ^ (8 * 0)) mod 256 ^ 8"
    by (rule horner_bytes)
  also have "\<dots> = uint w"
    using uint_lt2p [of w] by simp
  finally show ?thesis .
qed

lemma quot_rem_unique:
  fixes B :: int
  assumes "0 \<le> m" and "m < B"
  shows "(q * B + m) mod B = m" and "(q * B + m) div B = q"
  using assms by simp_all

lemma binary64_fields:
  fixes s E m :: int
  assumes "0 \<le> E" and "E < 2048" and "0 \<le> m" and "m < 2 ^ 52"
  shows "(s * 2 ^ 63 + E * 2 ^ 52 + m) mod 2 ^ 52 = m"
    and "((s * 2 ^ 63 + E * 2 ^ 52 + m) div 2 ^ 52) mod 2048 = E"
    and "(s * 2 ^ 63 + E * 2 ^ 52 + m) div 2 ^ 63 = s"
proof -
  have eq: "s * 2 ^ 63 + E * 2 ^ 52 + m = (s * 2048 + E) * 2 ^ 52 + m"
    by (simp add: algebra_simps)
  show "(s * 2 ^ 63 + E * 2 ^ 52 + m) mod 2 ^ 52 = m"
    unfolding eq by (rule quot_rem_unique [OF assms(3,4)])
  have d: "(s * 2 ^ 63 + E * 2 ^ 52 + m) div 2 ^ 52 = s * 2048 + E"
    unfolding eq by (rule quot_rem_unique [OF assms(3,4)])
  show "((s * 2 ^ 63 + E * 2 ^ 52 + m) div 2 ^ 52) mod 2048 = E"
    unfolding d by (rule quot_rem_unique [OF assms(1,2)])
  have "(s * 2 ^ 63 + E * 2 ^ 52 + m) div 2 ^ 63
        = ((s * 2 ^ 63 + E * 2 ^ 52 + m) div 2 ^ 52) div 2048"
    by (subst zdiv_zmult2_eq [symmetric]) simp_all
  also have "\<dots> = s"
    unfolding d by (rule quot_rem_unique [OF assms(1,2)])
  finally show "(s * 2 ^ 63 + E * 2 ^ 52 + m) div 2 ^ 63 = s" .
qed

lemma binary64_int_fields:
  fixes s E m :: int
  assumes "0 \<le> E" and "E < 2048" and "0 \<le> m" and "m < 2 ^ 52"
  shows "binary64_int (s * 2 ^ 63 + E * 2 ^ 52 + m)
         = (if E = 0 \<and> m = 0 then Some 0
            else if 1023 \<le> E \<and> E \<le> 1075 \<and> (2 ^ 52 + m) mod 2 ^ nat (1075 - E) = 0
            then Some ((if s = 0 then 1 else - 1) * ((2 ^ 52 + m) div 2 ^ nat (1075 - E)))
            else None)"
  unfolding binary64_int_def Let_def binary64_fields [OF assms] ..

text \<open>
  The eight bytes written for an integer below \<open>2 ^ 53\<close> in absolute value, read back as
  a binary64 number, are that integer.
\<close>

lemma binary64_roundtrip:
  assumes "\<bar>v\<bar> < 2 ^ 53"
  shows "binary64_int (le_int (double_bytes v)) = Some v"
proof (cases "v = 0")
  case True
  have "le_int (double_bytes 0) = uint (double_bits 0)"
    unfolding double_bytes_def by (rule le_int_bytes)
  then show ?thesis
    using True by (simp add: double_bits_def binary64_int_def)
next
  case False
  define a where "a = \<bar>v\<bar>"
  define e where "e = msb_index a"
  define m where "m = a * 2 ^ (52 - e) - 2 ^ 52"
  define s :: int where "s = (if v < 0 then 1 else 0)"
  from False have a: "0 < a" "a < 2 ^ 53"
    using assms by (simp_all add: a_def)
  from msb_index_bounds [OF a(1)] have lo: "2 ^ e \<le> a" and hi: "a < 2 * 2 ^ e"
    by (simp_all add: e_def)
  have e: "e \<le> 52"
  proof (rule ccontr)
    assume "\<not> e \<le> 52"
    then have "53 \<le> e" by simp
    then have "(2::int) ^ 53 \<le> 2 ^ e"
      by (rule power_increasing) simp
    with lo a(2) show False by simp
  qed
  have split: "(2::int) ^ e * 2 ^ (52 - e) = 2 ^ 52"
    using e by (simp add: power_add [symmetric])
  have "2 ^ e * 2 ^ (52 - e) \<le> a * (2::int) ^ (52 - e)"
    using lo by (intro mult_right_mono) simp_all
  then have m0: "0 \<le> m"
    unfolding m_def split by simp
  have "a * (2::int) ^ (52 - e) < (2 * 2 ^ e) * 2 ^ (52 - e)"
    using hi by (intro mult_strict_right_mono) simp_all
  also have "\<dots> = 2 * 2 ^ 52"
    using split by simp
  finally have m1: "m < 2 ^ 52"
    unfolding m_def by simp
  have E: "0 \<le> 1023 + int e" "1023 + int e < 2048"
    using e by simp_all
  have bits: "double_bits v = word_of_int (s * 2 ^ 63 + (1023 + int e) * 2 ^ 52 + m)"
    using False by (simp add: double_bits_def Let_def a_def e_def m_def s_def)
  have s01: "s = 0 \<or> s = 1"
    by (simp add: s_def)
  have N0: "0 \<le> s * 2 ^ 63 + (1023 + int e) * 2 ^ 52 + m"
    using s01 m0 by auto
  have "(1023 + int e) * 2 ^ 52 \<le> 2047 * (2::int) ^ 52"
    using E(2) by (intro mult_right_mono) simp_all
  then have N1: "s * 2 ^ 63 + (1023 + int e) * 2 ^ 52 + m < 2 ^ 64"
    using s01 m1 by auto
  have "le_int (double_bytes v) = uint (double_bits v)"
    unfolding double_bytes_def by (rule le_int_bytes)
  also have "\<dots> = s * 2 ^ 63 + (1023 + int e) * 2 ^ 52 + m"
    unfolding bits uint_word_of_int using N0 N1 by simp
  finally have le: "le_int (double_bytes v) = s * 2 ^ 63 + (1023 + int e) * 2 ^ 52 + m" .
  have sh: "nat (1075 - (1023 + int e)) = 52 - e"
    using e by simp
  have mant: "2 ^ 52 + m = a * 2 ^ (52 - e)"
    by (simp add: m_def)
  have sgn: "(if s = 0 then 1 else - 1) * a = v"
    using False by (simp add: s_def a_def)
  show ?thesis
    unfolding le binary64_int_fields [OF E m0 m1] sh mant
    using e sgn by simp
qed

lemma salt_bytes_roundtrip:
  "binary64_int (le_int (double_bytes (sint (w :: 32 word)))) = Some (sint w)"
proof -
  have "- (2 ^ 31) \<le> sint w" and "sint w < 2 ^ 31"
    using sint_ge [of w] sint_lt [of w] by simp_all
  then have "\<bar>sint w\<bar> < 2 ^ 53"
    by simp
  then show ?thesis
    by (rule binary64_roundtrip)
qed

section \<open>One iteration of the Responder\<close>

lemma strlen_append_past_end:
  assumes "0 \<in> set m \<or> pe = 0"
  shows "strlen (m @ [pe]) = Some (length (takeWhile (\<lambda>b. b \<noteq> 0) m))"
proof (cases "0 \<in> set m")
  case True
  then have "takeWhile (\<lambda>b. b \<noteq> 0) (m @ [pe]) = takeWhile (\<lambda>b. b \<noteq> 0) m"
    by (intro takeWhile_append1) auto
  with True show ?thesis by (simp add: strlen_def)
next
  case False
  with assms have pe: "pe = 0" by simp
  from False have a: "takeWhile (\<lambda>b. b \<noteq> 0) m = m"
    by (auto simp: takeWhile_eq_all_conv)
  from False have "takeWhile (\<lambda>b. b \<noteq> 0) (m @ [pe]) = m @ takeWhile (\<lambda>b. b \<noteq> 0) [pe]"
    by (intro takeWhile_append2) auto
  then have b: "takeWhile (\<lambda>b. b \<noteq> 0) (m @ [pe]) = m"
    by (simp add: pe)
  show ?thesis
    unfolding strlen_def b a by (simp add: pe)
qed

lemma c_string_nul:
  assumes "0 \<in> set m \<or> pe = 0"
  shows "c_string m pe = takeWhile (\<lambda>b. b \<noteq> 0) m"
  unfolding c_string_def strlen_append_past_end [OF assms]
  by (simp add: takeWhile_eq_take [symmetric])

lemma takeWhile_upto_nul:
  "takeWhile (\<lambda>b. b \<noteq> 0) (xs @ 0 # t) = takeWhile (\<lambda>b. b \<noteq> (0::byte)) xs"
  by (induction xs) simp_all

lemma take_min_length: "take (min (length p) k) p = take k p"
  by (simp add: min_def)

lemma first_bytes_length: "first_bytes (int n) bs = take n bs"
  by (simp add: first_bytes_def size_t_of_def)

text \<open>
  The store behind \<open>r\<close> received bytes: into the buffer when the buffer is longer than \<open>r\<close>,
  into the byte behind the buffer when the datagram filled it.
\<close>

lemma store_nul_at_length:
  "store_nul (r @ rest) pe0 (int (length r))
   = (if rest = [] then (r, 0) else (r @ 0 # tl rest, pe0))"
  by (cases rest) (simp_all add: store_nul_def)

lemma store_nul_cases:
  assumes "store_nul (r @ rest) pe0 (int (length r)) = (d2, pe)"
  obtains (full) "d2 = r" and "pe = 0" | (room) t where "d2 = r @ 0 # t"
proof -
  from assms have "(d2, pe) = (if rest = [] then (r, 0) else (r @ 0 # tl rest, pe0))"
    by (simp only: store_nul_at_length)
  then show thesis
    by (cases "rest = []") (auto intro: full room)
qed

text \<open>
  After the store behind \<open>r\<close> received bytes: what \<^verbatim>\<open>fwrite\<close> hands over, what \<^verbatim>\<open>fread\<close>
  leaves in memory, and what \<^verbatim>\<open>sendto\<close> sends.
\<close>

lemma after_store:
  assumes "store_nul (r @ rest) pe0 (int (length r)) = (d2, pe)"
    and "got = take (length r) dev"
  shows "mem_bytes d2 pe (int (length r)) = r"
    and "fread_mem d2 pe (int (length r)) dev = (got, got @ drop (length got) d2, pe)"
    and "c_string (got @ drop (length got) d2) pe
         = takeWhile (\<lambda>b. b \<noteq> 0) (got @ drop (length got) r)"
proof -
  have len: "length got \<le> length r"
    unfolding assms(2) by simp
  from assms(1) show "mem_bytes d2 pe (int (length r)) = r"
    unfolding mem_bytes_def first_bytes_length by (cases rule: store_nul_cases) simp_all
  from assms(1) have l2: "length r \<le> length d2"
    by (cases rule: store_nul_cases) simp_all
  with len have "length (got @ drop (length got) d2) = length d2" "\<not> length d2 < length got"
    by simp_all
  then show "fread_mem d2 pe (int (length r)) dev = (got, got @ drop (length got) d2, pe)"
    unfolding fread_mem_def first_bytes_length Let_def assms(2) [symmetric] by simp
  from assms(1) show "c_string (got @ drop (length got) d2) pe
         = takeWhile (\<lambda>b. b \<noteq> 0) (got @ drop (length got) r)"
  proof (cases rule: store_nul_cases)
    case full
    then show ?thesis by (simp add: c_string_nul)
  next
    case (room t)
    with len have m: "got @ drop (length got) d2 = (got @ drop (length got) r) @ 0 # t"
      by simp
    have "c_string (got @ drop (length got) d2) pe
          = takeWhile (\<lambda>b. b \<noteq> 0) (got @ drop (length got) d2)"
      by (rule c_string_nul) (simp add: m)
    then show ?thesis
      unfolding m takeWhile_upto_nul .
  qed
qed

text \<open>
  The iteration that receives a datagram, in full: \<open>r\<close> are the bytes received, \<open>d2\<close> and
  \<open>pe\<close> the buffer and the byte behind it after the store, \<open>got\<close> the bytes read back. The
  reply is what was read back and, behind it, what is left of the received bytes, up to
  the first zero byte.
\<close>

lemma anerd_server_iter_datagram:
  assumes "rx inp = Datagram p a"
    and "r = take (nat size') p"
    and "store_nul (r @ drop (length r) (data st)) (past_end st) (int (length r)) = (d2, pe)"
    and "got = take (length r) (pool_out inp)"
  shows "anerd_server_iter sock size' st inp
         = ([Recvfrom (int (length r)) r, Store_nul (int (length r)),
             Syslog ''Received'' (int (length r)) a, Fflush_stdout,
             Fwrite r,
             Fwrite (double_bytes (salt_of (last_usec st) (usec_stamp (now inp)))),
             Fflush,
             Fread (int (length r)) got,
             Sendto sock (takeWhile (\<lambda>b. b \<noteq> 0) (got @ drop (length got) r)) a,
             Syslog ''Transmit'' (int (length r)) a],
            \<lparr>last_usec = usec_stamp (now inp), data = got @ drop (length got) d2,
             past_end = pe, client_addr = a\<rparr>)"
proof -
  have rc: "recvfrom size' (data st) (client_addr st) (rx inp)
            = (int (length r), r @ drop (length r) (data st), a)"
    by (simp add: recvfrom_def assms(1,2) Let_def)
  have tk1: "take (length r) (r @ drop (length r) (data st)) = r"
    by simp
  note mem = after_store [OF assms(3,4)]
  show ?thesis
    unfolding anerd_server_iter_def rc prod.case assms(3) Let_def mem
    by (simp add: tk1 del: take_append)
qed

text \<open>The iteration in which \<^verbatim>\<open>recvfrom\<close> fails.\<close>

lemma anerd_server_iter_rx_error:
  assumes "rx inp = Rx_error"
    and "fread_mem (data st) (past_end st) (- 1) (pool_out inp) = (got, d3, pe')"
  shows "anerd_server_iter sock size' st inp
         = ([Recvfrom (- 1) [], Store_nul (- 1), Syslog ''Received'' (- 1) (client_addr st),
             Fflush_stdout,
             Fwrite (mem_bytes (data st) (past_end st) (- 1)),
             Fwrite (double_bytes (salt_of (last_usec st) (usec_stamp (now inp)))),
             Fflush,
             Fread (- 1) got,
             Sendto sock (c_string d3 pe') (client_addr st),
             Syslog ''Transmit'' (- 1) (client_addr st)],
            \<lparr>last_usec = usec_stamp (now inp), data = d3, past_end = pe',
             client_addr = client_addr st\<rparr>)"
proof -
  have rc: "recvfrom size' (data st) (client_addr st) (rx inp) = (- 1, data st, client_addr st)"
    by (simp add: recvfrom_def assms(1))
  have sn: "store_nul (data st) (past_end st) (- 1) = (data st, past_end st)"
    by (simp add: store_nul_def)
  show ?thesis
    unfolding anerd_server_iter_def rc prod.case sn Let_def assms(2)
    by simp
qed

lemma anerd_server_iter_cases:
  obtains (error) w got reply st' where
      "rx inp = Rx_error"
      "anerd_server_iter sock size' st inp
       = ([Recvfrom (- 1) [], Store_nul (- 1), Syslog ''Received'' (- 1) (client_addr st),
           Fflush_stdout, Fwrite w,
           Fwrite (double_bytes (salt_of (last_usec st) (usec_stamp (now inp)))),
           Fflush, Fread (- 1) got,
           Sendto sock reply (client_addr st),
           Syslog ''Transmit'' (- 1) (client_addr st)], st')"
  | (datagram) p r a got st' where
      "rx inp = Datagram p a"
      "anerd_server_iter sock size' st inp
       = ([Recvfrom (int (length r)) r, Store_nul (int (length r)),
           Syslog ''Received'' (int (length r)) a, Fflush_stdout,
           Fwrite r,
           Fwrite (double_bytes (salt_of (last_usec st) (usec_stamp (now inp)))),
           Fflush, Fread (int (length r)) got,
           Sendto sock (takeWhile (\<lambda>b. b \<noteq> 0) (got @ drop (length got) r)) a,
           Syslog ''Transmit'' (int (length r)) a], st')"
proof (cases "rx inp")
  case Rx_error
  obtain got d3 pe' where
    "fread_mem (data st) (past_end st) (- 1) (pool_out inp) = (got, d3, pe')"
    by (cases "fread_mem (data st) (past_end st) (- 1) (pool_out inp)")
  from error [OF Rx_error anerd_server_iter_rx_error [OF Rx_error this]] show ?thesis .
next
  case (Datagram p a)
  obtain d2 pe where st:
    "store_nul (take (nat size') p @ drop (length (take (nat size') p)) (data st))
       (past_end st) (int (length (take (nat size') p))) = (d2, pe)"
    by (cases "store_nul (take (nat size') p @ drop (length (take (nat size') p)) (data st))
                 (past_end st) (int (length (take (nat size') p)))")
  from datagram [OF Datagram anerd_server_iter_datagram [OF Datagram refl st refl]]
  show ?thesis .
qed


lemma iter_ignores_tx_res:
  "anerd_server_iter sock size' st (inp\<lparr>tx_res := res\<rparr>) = anerd_server_iter sock size' st inp"
  by (simp add: anerd_server_iter_def Let_def split: prod.splits)

lemma anerd_server_loop_running: "snd (anerd_server_loop sock size' st ins) = Running"
proof (induction ins arbitrary: st)
  case Nil
  show ?case by simp
next
  case (Cons inp ins)
  obtain evs st' where it: "anerd_server_iter sock size' st inp = (evs, st')"
    by (cases "anerd_server_iter sock size' st inp")
  obtain evs' r where lp: "anerd_server_loop sock size' st' ins = (evs', r)"
    by (cases "anerd_server_loop sock size' st' ins")
  from Cons.IH [of st'] lp have "r = Running" by simp
  with it lp show ?case by simp
qed

lemma iter_last_usec:
  "last_usec (snd (anerd_server_iter sock size' st inp)) = usec_stamp (now inp)"
  by (simp add: anerd_server_iter_def Let_def split: prod.splits)

section \<open>The Responder: claims\<close>

text \<open>
  \<^bold>\<open>C1\<close> (the reply to a datagram of \<open>n\<close> bytes is \<open>n\<close> bytes long) does not hold of the
  code. The reply is \<^verbatim>\<open>strlen(data)\<close> bytes long, and the \<open>n\<close> bytes read back from the pool
  may hold a zero byte. Here the Responder, with the default size 64, receives the two
  bytes \<^verbatim>\<open>AB\<close>, reads the bytes 0 and \<^verbatim>\<open>A\<close> back from the pool, and sends an empty
  datagram, while its log line says 2 bytes.
\<close>

theorem responder_reply_shorter_than_datagram:
  "anerd_server_iter 3 64
     \<lparr>last_usec = 7000007, data = replicate 64 0, past_end = 0, client_addr = Sockaddr 0 0\<rparr>
     \<lparr>rx = Datagram [0x41, 0x42] (Sockaddr 0x0A000002 40000),
      now = \<lparr>tv_sec = 0, tv_usec = 0\<rparr>, pool_out = [0, 0x41], tx_res = 0\<rparr>
   = ([Recvfrom 2 [0x41, 0x42], Store_nul 2,
       Syslog ''Received'' 2 (Sockaddr 0x0A000002 40000), Fflush_stdout,
       Fwrite [0x41, 0x42], Fwrite [0, 0, 0, 0, 0, 0, 0, 0], Fflush, Fread 2 [0, 0x41],
       Sendto 3 [] (Sockaddr 0x0A000002 40000),
       Syslog ''Transmit'' 2 (Sockaddr 0x0A000002 40000)],
      \<lparr>last_usec = 0, data = [0, 0x41] @ replicate 62 0, past_end = 0,
       client_addr = Sockaddr 0x0A000002 40000\<rparr>)"
  by code_simp

text \<open>
  \<^bold>\<open>C3\<close> (the store \<^verbatim>\<open>data[bytes_read] = '\0'\<close> stays inside the buffer) does not hold of
  the code. With the default size 64, a datagram of 64 bytes makes the store (the fourth
  event of the run, after \<^verbatim>\<open>fopen\<close>, \<^verbatim>\<open>bind\<close> and \<^verbatim>\<open>recvfrom\<close>) hit index 64, and a
  failed \<^verbatim>\<open>recvfrom\<close> makes it hit index \<open>-1\<close>; the buffer has the indices 0 to 63.
\<close>

theorem responder_store_out_of_bounds:
  "fst (anerd_server ''/dev/urandom'' 64 26373
          \<lparr>srv_socket = 3, srv_fopen = True, srv_calloc = True, srv_bind = 0,
           srv_time = \<lparr>tv_sec = 0, tv_usec = 7\<rparr>, srv_past_end = 0,
           srv_addr = Sockaddr 0 0\<rparr>
          [\<lparr>rx = Datagram (replicate 64 0x41) (Sockaddr 0x0A000002 40000),
            now = \<lparr>tv_sec = 0, tv_usec = 9\<rparr>, pool_out = replicate 64 1, tx_res = 64\<rparr>]) ! 3
   = Store_nul 64
   \<and> store_ok 64 (Store_nul 64) = False
   \<and> fst (anerd_server ''/dev/urandom'' 64 26373
          \<lparr>srv_socket = 3, srv_fopen = True, srv_calloc = True, srv_bind = 0,
           srv_time = \<lparr>tv_sec = 0, tv_usec = 7\<rparr>, srv_past_end = 0,
           srv_addr = Sockaddr 0 0\<rparr>
          [\<lparr>rx = Rx_error,
            now = \<lparr>tv_sec = 0, tv_usec = 9\<rparr>, pool_out = replicate 64 1, tx_res = 64\<rparr>]) ! 3
   = Store_nul (- 1)
   \<and> store_ok 64 (Store_nul (- 1)) = False"
  by code_simp

text \<open>
  \<^bold>\<open>C4\<close>, as stated, fails: the salt is not injective on pairs of time stamps. The pairs
  of readings with microsecond fields (0, 1) and (0, 2) both give the salt 0, and the
  pairs (1, 2) and (2, 1) give the same salt.
\<close>

theorem salt_not_injective:
  "(\<lparr>tv_sec = 0, tv_usec = 0\<rparr>, \<lparr>tv_sec = 0, tv_usec = 1\<rparr>)
     \<noteq> (\<lparr>tv_sec = 0, tv_usec = 0\<rparr>, \<lparr>tv_sec = 0, tv_usec = 2\<rparr>)
   \<and> salt_of (usec_stamp \<lparr>tv_sec = 0, tv_usec = 0\<rparr>) (usec_stamp \<lparr>tv_sec = 0, tv_usec = 1\<rparr>)
     = salt_of (usec_stamp \<lparr>tv_sec = 0, tv_usec = 0\<rparr>) (usec_stamp \<lparr>tv_sec = 0, tv_usec = 2\<rparr>)
   \<and> (\<lparr>tv_sec = 0, tv_usec = 1\<rparr>, \<lparr>tv_sec = 0, tv_usec = 2\<rparr>)
     \<noteq> (\<lparr>tv_sec = 0, tv_usec = 2\<rparr>, \<lparr>tv_sec = 0, tv_usec = 1\<rparr>)
   \<and> salt_of (usec_stamp \<lparr>tv_sec = 0, tv_usec = 1\<rparr>) (usec_stamp \<lparr>tv_sec = 0, tv_usec = 2\<rparr>)
     = salt_of (usec_stamp \<lparr>tv_sec = 0, tv_usec = 2\<rparr>) (usec_stamp \<lparr>tv_sec = 0, tv_usec = 1\<rparr>)"
  by (simp add: salt_of_def usec_stamp_def)

text \<open>
  \<^bold>\<open>C4\<close>, amended. In every iteration the second \<^verbatim>\<open>fwrite\<close> (the sixth event) writes the
  salt: the eight bytes that denote, as a binary64 number, the product of the stored stamp
  and this iteration's stamp, as 32-bit two's complement multiplication gives it. A stamp
  is 1000001 times the microsecond field of the clock reading, reduced to 32 bits, and the
  stored stamp becomes this iteration's stamp. So the salt is a function of the two
  readings. It is symmetric in the two stamps and is 0 when the stored stamp is 0, so it is
  not injective.
\<close>

theorem salt_symmetric_function_of_stamps:
  "fst (anerd_server_iter sock size' st inp) ! 5
     = Fwrite (double_bytes (sint (last_usec st * word_of_int (1000001 * tv_usec (now inp)))))
   \<and> binary64_int
       (le_int (double_bytes (sint (last_usec st * word_of_int (1000001 * tv_usec (now inp))))))
     = Some (sint (last_usec st * word_of_int (1000001 * tv_usec (now inp))))
   \<and> last_usec (snd (anerd_server_iter sock size' st inp))
     = word_of_int (1000001 * tv_usec (now inp))
   \<and> usec_stamp tv = word_of_int (1000001 * tv_usec tv)
   \<and> salt_of x y = sint (x * y)
   \<and> salt_of x y = salt_of y x
   \<and> salt_of 0 y = 0"
proof -
  have st: "usec_stamp t = word_of_int (1000001 * tv_usec t)" for t
    by (simp add: usec_stamp_def)
  have "fst (anerd_server_iter sock size' st inp) ! 5
        = Fwrite (double_bytes (salt_of (last_usec st) (usec_stamp (now inp))))"
    by (cases rule: anerd_server_iter_cases [of inp sock size' st]) simp_all
  then have "fst (anerd_server_iter sock size' st inp) ! 5
     = Fwrite (double_bytes (sint (last_usec st * word_of_int (1000001 * tv_usec (now inp)))))"
    by (simp only: salt_of_def st)
  moreover have "last_usec (snd (anerd_server_iter sock size' st inp))
     = word_of_int (1000001 * tv_usec (now inp))"
    by (simp only: iter_last_usec st)
  moreover have "salt_of x y = salt_of y x" "salt_of 0 y = 0" "salt_of x y = sint (x * y)"
    by (simp_all add: salt_of_def mult.commute)
  ultimately show ?thesis
    using st [of tv] salt_bytes_roundtrip by blast
qed

theorem salt_symmetric_function_of_stamps_witness:
  "fst (anerd_server_iter 3 64
          \<lparr>last_usec = 7000007, data = replicate 64 0, past_end = 0,
           client_addr = Sockaddr 0 0\<rparr>
          \<lparr>rx = Datagram [0x41, 0x42] (Sockaddr 0x0A000002 40000),
           now = \<lparr>tv_sec = 5, tv_usec = 9\<rparr>, pool_out = [3, 4], tx_res = 2\<rparr>) ! 5
     = Fwrite [0x00, 0x00, 0xC0, 0xEF, 0x62, 0x08, 0xD7, 0x41]
   \<and> binary64_int (le_int [0x00, 0x00, 0xC0, 0xEF, 0x62, 0x08, 0xD7, 0x41]) = Some 1545702335
   \<and> sint (7000007 * 9000009 :: 32 word) = 1545702335
   \<and> salt_of 7000007 9000009 = salt_of 9000009 7000007"
proof -
  have v: "sint (7000007 * word_of_int (1000001 * 9) :: 32 word) = 1545702335"
    by simp
  have b: "double_bytes 1545702335 = [0x00, 0x00, 0xC0, 0xEF, 0x62, 0x08, 0xD7, 0x41]"
    by code_simp
  from salt_symmetric_function_of_stamps
    [where sock = 3 and size' = 64
       and st = "\<lparr>last_usec = 7000007, data = replicate 64 0, past_end = 0,
                  client_addr = Sockaddr 0 0\<rparr>"
       and inp = "\<lparr>rx = Datagram [0x41, 0x42] (Sockaddr 0x0A000002 40000),
                   now = \<lparr>tv_sec = 5, tv_usec = 9\<rparr>, pool_out = [3, 4], tx_res = 2\<rparr>"
       and tv = "\<lparr>tv_sec = 5, tv_usec = 9\<rparr>" and x = 7000007 and y = 9000009]
  show ?thesis
    unfolding server_state.simps server_input.simps timeval.simps v b
    by simp
qed



text \<open>
  \<^bold>\<open>C6\<close>, as stated, fails: a failed send is not reported. In this iteration \<^verbatim>\<open>sendto\<close>
  returns \<open>-1\<close>; the trace holds no \<^verbatim>\<open>perror\<close> and no log line with a negative count, and
  its last line is the \<^verbatim>\<open>Transmit\<close> line of a successful send.
\<close>

theorem responder_send_failure_not_reported:
  "tx_res \<lparr>rx = Datagram [0x41, 0x42] (Sockaddr 0x0A000002 40000),
           now = \<lparr>tv_sec = 5, tv_usec = 0\<rparr>, pool_out = [3, 4], tx_res = - 1\<rparr> < 0
   \<and> fst (anerd_server_iter 3 64
            \<lparr>last_usec = 7000007, data = replicate 64 0, past_end = 0,
             client_addr = Sockaddr 0 0\<rparr>
            \<lparr>rx = Datagram [0x41, 0x42] (Sockaddr 0x0A000002 40000),
             now = \<lparr>tv_sec = 5, tv_usec = 0\<rparr>, pool_out = [3, 4], tx_res = - 1\<rparr>)
     = [Recvfrom 2 [0x41, 0x42], Store_nul 2,
        Syslog ''Received'' 2 (Sockaddr 0x0A000002 40000), Fflush_stdout,
        Fwrite [0x41, 0x42], Fwrite [0, 0, 0, 0, 0, 0, 0, 0], Fflush, Fread 2 [3, 4],
        Sendto 3 [3, 4] (Sockaddr 0x0A000002 40000),
        Syslog ''Transmit'' 2 (Sockaddr 0x0A000002 40000)]
   \<and> \<not> list_ex is_error_report
         (fst (anerd_server_iter 3 64
            \<lparr>last_usec = 7000007, data = replicate 64 0, past_end = 0,
             client_addr = Sockaddr 0 0\<rparr>
            \<lparr>rx = Datagram [0x41, 0x42] (Sockaddr 0x0A000002 40000),
             now = \<lparr>tv_sec = 5, tv_usec = 0\<rparr>, pool_out = [3, 4], tx_res = - 1\<rparr>))"
  by code_simp

text \<open>
  \<^bold>\<open>C6\<close>, amended. A failed receive or send in the Responder's loop is not fatal and is
  not retried: every iteration calls \<^verbatim>\<open>recvfrom\<close> once and \<^verbatim>\<open>sendto\<close> once, and the loop
  goes on with the next datagram, from the state the iteration left, and never ends. The
  return value of \<^verbatim>\<open>sendto\<close> changes nothing, so a failed send is not reported. A failed
  receive is reported through the log only, as the count \<open>-1\<close> in the iteration's
  \<^verbatim>\<open>Received\<close> and \<^verbatim>\<open>Transmit\<close> lines; these are the only reports of an error that an
  iteration makes.
\<close>

theorem responder_io_failure_not_fatal:
  "anerd_server_iter sock size' st (inp\<lparr>tx_res := res\<rparr>) = anerd_server_iter sock size' st inp
   \<and> length (filter is_recvfrom (fst (anerd_server_iter sock size' st inp))) = 1
   \<and> length (filter is_sendto (fst (anerd_server_iter sock size' st inp))) = 1
   \<and> filter is_error_report (fst (anerd_server_iter sock size' st inp))
     = (if rx inp = Rx_error
        then [Syslog ''Received'' (- 1) (client_addr st),
              Syslog ''Transmit'' (- 1) (client_addr st)]
        else [])
   \<and> anerd_server_loop sock size' st (inp # ins)
     = (fst (anerd_server_iter sock size' st inp)
          @ fst (anerd_server_loop sock size' (snd (anerd_server_iter sock size' st inp)) ins),
        Running)"
proof -
  have "length (filter is_recvfrom (fst (anerd_server_iter sock size' st inp))) = 1
      \<and> length (filter is_sendto (fst (anerd_server_iter sock size' st inp))) = 1
      \<and> filter is_error_report (fst (anerd_server_iter sock size' st inp))
        = (if rx inp = Rx_error
           then [Syslog ''Received'' (- 1) (client_addr st),
                 Syslog ''Transmit'' (- 1) (client_addr st)]
           else [])"
    by (cases rule: anerd_server_iter_cases [of inp sock size' st]) simp_all
  moreover have "anerd_server_loop sock size' st (inp # ins)
     = (fst (anerd_server_iter sock size' st inp)
          @ fst (anerd_server_loop sock size' (snd (anerd_server_iter sock size' st inp)) ins),
        Running)"
  proof -
    obtain evs st' where it: "anerd_server_iter sock size' st inp = (evs, st')"
      by (cases "anerd_server_iter sock size' st inp")
    obtain evs' r where lp: "anerd_server_loop sock size' st' ins = (evs', r)"
      by (cases "anerd_server_loop sock size' st' ins")
    from anerd_server_loop_running [of sock size' st' ins] lp have "r = Running"
      by simp
    with it lp show ?thesis
      by simp
  qed
  ultimately show ?thesis
    using iter_ignores_tx_res by blast
qed

theorem responder_io_failure_not_fatal_witness:
  "anerd_server_loop 3 64
     \<lparr>last_usec = 7000007, data = replicate 64 0, past_end = 0, client_addr = Sockaddr 0 0\<rparr>
     [\<lparr>rx = Rx_error,
       now = \<lparr>tv_sec = 4, tv_usec = 0\<rparr>, pool_out = [], tx_res = - 1\<rparr>,
      \<lparr>rx = Datagram [0x41, 0x42] (Sockaddr 0x0A000002 40000),
       now = \<lparr>tv_sec = 5, tv_usec = 0\<rparr>, pool_out = [3, 4], tx_res = - 1\<rparr>]
   = ([Recvfrom (- 1) [], Store_nul (- 1), Syslog ''Received'' (- 1) (Sockaddr 0 0),
       Fflush_stdout, Fwrite (replicate 65 0), Fwrite [0, 0, 0, 0, 0, 0, 0, 0], Fflush,
       Fread (- 1) [], Sendto 3 [] (Sockaddr 0 0), Syslog ''Transmit'' (- 1) (Sockaddr 0 0),
       Recvfrom 2 [0x41, 0x42], Store_nul 2,
       Syslog ''Received'' 2 (Sockaddr 0x0A000002 40000), Fflush_stdout,
       Fwrite [0x41, 0x42], Fwrite [0, 0, 0, 0, 0, 0, 0, 0], Fflush, Fread 2 [3, 4],
       Sendto 3 [3, 4] (Sockaddr 0x0A000002 40000),
       Syslog ''Transmit'' 2 (Sockaddr 0x0A000002 40000)],
      Running)
   \<and> filter is_error_report
       (fst (anerd_server_iter 3 64
          \<lparr>last_usec = 7000007, data = replicate 64 0, past_end = 0,
           client_addr = Sockaddr 0 0\<rparr>
          \<lparr>rx = Rx_error,
           now = \<lparr>tv_sec = 4, tv_usec = 0\<rparr>, pool_out = [], tx_res = - 1\<rparr>))
     = [Syslog ''Received'' (- 1) (Sockaddr 0 0), Syslog ''Transmit'' (- 1) (Sockaddr 0 0)]"
proof -
  have run: "anerd_server_loop 3 64
     \<lparr>last_usec = 7000007, data = replicate 64 0, past_end = 0, client_addr = Sockaddr 0 0\<rparr>
     [\<lparr>rx = Rx_error,
       now = \<lparr>tv_sec = 4, tv_usec = 0\<rparr>, pool_out = [], tx_res = - 1\<rparr>,
      \<lparr>rx = Datagram [0x41, 0x42] (Sockaddr 0x0A000002 40000),
       now = \<lparr>tv_sec = 5, tv_usec = 0\<rparr>, pool_out = [3, 4], tx_res = - 1\<rparr>]
   = ([Recvfrom (- 1) [], Store_nul (- 1), Syslog ''Received'' (- 1) (Sockaddr 0 0),
       Fflush_stdout, Fwrite (replicate 65 0), Fwrite [0, 0, 0, 0, 0, 0, 0, 0], Fflush,
       Fread (- 1) [], Sendto 3 [] (Sockaddr 0 0), Syslog ''Transmit'' (- 1) (Sockaddr 0 0),
       Recvfrom 2 [0x41, 0x42], Store_nul 2,
       Syslog ''Received'' 2 (Sockaddr 0x0A000002 40000), Fflush_stdout,
       Fwrite [0x41, 0x42], Fwrite [0, 0, 0, 0, 0, 0, 0, 0], Fflush, Fread 2 [3, 4],
       Sendto 3 [3, 4] (Sockaddr 0x0A000002 40000),
       Syslog ''Transmit'' 2 (Sockaddr 0x0A000002 40000)],
      Running)"
    by code_simp
  from responder_io_failure_not_fatal
    [where sock = 3 and size' = 64
       and st = "\<lparr>last_usec = 7000007, data = replicate 64 0, past_end = 0,
                  client_addr = Sockaddr 0 0\<rparr>"
       and inp = "\<lparr>rx = Rx_error,
                   now = \<lparr>tv_sec = 4, tv_usec = 0\<rparr>, pool_out = [], tx_res = - 1\<rparr>"
       and res = "- 1" and ins = "[]"]
  have "filter is_error_report
       (fst (anerd_server_iter 3 64
          \<lparr>last_usec = 7000007, data = replicate 64 0, past_end = 0,
           client_addr = Sockaddr 0 0\<rparr>
          \<lparr>rx = Rx_error,
           now = \<lparr>tv_sec = 4, tv_usec = 0\<rparr>, pool_out = [], tx_res = - 1\<rparr>))
     = [Syslog ''Received'' (- 1) (Sockaddr 0 0), Syslog ''Transmit'' (- 1) (Sockaddr 0 0)]"
    by simp
  with run show ?thesis
    by (rule conjI)
qed

text \<open>
  \<^bold>\<open>C7.\<close> An iteration of the Responder that receives \<open>n\<close> bytes (the first \<open>size\<close> bytes
  of the datagram) writes to the pool exactly those \<open>n\<close> bytes and then the salt in 8
  bytes, flushes, and only then reads \<open>n\<close> bytes back; these are its only pool events. The
  8 bytes denote, as a binary64 number, the salt: the product of the stored stamp and this
  iteration's stamp.
\<close>

theorem responder_appends_datagram_then_salt:
  assumes "rx inp = Datagram p a" and "n = min (length p) (nat size')"
  shows "fst (anerd_server_iter sock size' st inp)
         = [Recvfrom (int n) (take n p), Store_nul (int n),
            Syslog ''Received'' (int n) a, Fflush_stdout,
            Fwrite (take n p),
            Fwrite (double_bytes (sint (last_usec st * word_of_int (1000001 * tv_usec (now inp))))),
            Fflush,
            Fread (int n) (take n (pool_out inp)),
            Sendto sock
              (takeWhile (\<lambda>b. b \<noteq> 0)
                 (take n (pool_out inp) @ drop (length (take n (pool_out inp))) (take n p)))
              a,
            Syslog ''Transmit'' (int n) a]
       \<and> length (take n p) = n
       \<and> length (double_bytes (sint (last_usec st * word_of_int (1000001 * tv_usec (now inp))))) = 8
       \<and> binary64_int (le_int (double_bytes (sint (last_usec st * word_of_int (1000001 * tv_usec (now inp))))))
         = Some (sint (last_usec st * word_of_int (1000001 * tv_usec (now inp))))"
proof -
  define r where "r = take (nat size') p"
  have r: "take n p = r" "length r = n"
    unfolding r_def assms(2) by (simp_all add: take_min_length)
  obtain d2 pe where st:
    "store_nul (r @ drop (length r) (data st)) (past_end st) (int (length r)) = (d2, pe)"
    by (cases "store_nul (r @ drop (length r) (data st)) (past_end st) (int (length r))")
  have tk: "take n (pool_out inp) = take (length r) (pool_out inp)"
    by (simp only: r(2))
  show ?thesis
    unfolding r(1) tk anerd_server_iter_datagram [OF assms(1) r_def st refl, of sock]
    by (simp add: r(2) length_double_bytes salt_bytes_roundtrip salt_of_def usec_stamp_def)
qed

theorem responder_appends_datagram_then_salt_witness:
  "rx \<lparr>rx = Datagram [0x41, 0x42] (Sockaddr 0x0A000002 40000),
       now = \<lparr>tv_sec = 5, tv_usec = 9\<rparr>, pool_out = [3, 4, 5], tx_res = 2\<rparr>
     = Datagram [0x41, 0x42] (Sockaddr 0x0A000002 40000)
   \<and> (2::nat) = min (length [0x41, 0x42 :: byte]) (nat 64)
   \<and> fst (anerd_server_iter 3 64
           \<lparr>last_usec = 7000007, data = replicate 64 0, past_end = 0,
            client_addr = Sockaddr 0 0\<rparr>
           \<lparr>rx = Datagram [0x41, 0x42] (Sockaddr 0x0A000002 40000),
            now = \<lparr>tv_sec = 5, tv_usec = 9\<rparr>, pool_out = [3, 4, 5], tx_res = 2\<rparr>)
     = [Recvfrom 2 [0x41, 0x42], Store_nul 2,
        Syslog ''Received'' 2 (Sockaddr 0x0A000002 40000), Fflush_stdout,
        Fwrite [0x41, 0x42],
        Fwrite [0x00, 0x00, 0xC0, 0xEF, 0x62, 0x08, 0xD7, 0x41],
        Fflush,
        Fread 2 [3, 4],
        Sendto 3 [3, 4] (Sockaddr 0x0A000002 40000),
        Syslog ''Transmit'' 2 (Sockaddr 0x0A000002 40000)]
   \<and> binary64_int (le_int [0x00, 0x00, 0xC0, 0xEF, 0x62, 0x08, 0xD7, 0x41])
     = Some (sint (7000007 * 9000009 :: 32 word))"
proof -
  have v: "sint (7000007 * word_of_int (1000001 * 9) :: 32 word) = 1545702335"
    by simp
  have b: "double_bytes 1545702335 = [0x00, 0x00, 0xC0, 0xEF, 0x62, 0x08, 0xD7, 0x41]"
    by code_simp
  from responder_appends_datagram_then_salt
    [of "\<lparr>rx = Datagram [0x41, 0x42] (Sockaddr 0x0A000002 40000),
          now = \<lparr>tv_sec = 5, tv_usec = 9\<rparr>, pool_out = [3, 4, 5], tx_res = 2\<rparr>"
        "[0x41, 0x42]" "Sockaddr 0x0A000002 40000" 2 64 3
        "\<lparr>last_usec = 7000007, data = replicate 64 0, past_end = 0,
          client_addr = Sockaddr 0 0\<rparr>"]
  show ?thesis
    unfolding server_state.simps server_input.simps timeval.simps v b
    by simp
qed

section \<open>The Donor: claims\<close>

lemma anerd_client_loop_exit:
  "interval \<le> 0 \<Longrightarrow>
   anerd_client_loop sock size' interval addr d cs = ([Close sock, Free, Fclose], Returned 0)"
  by (cases cs) simp_all

text \<open>
  When its set-up succeeds the Donor enters the loop with the zeroed buffer of \<open>size\<close> bytes
  and the broadcast address at the configured port.
\<close>

lemma anerd_client_enters_loop:
  assumes "cl_calloc env" and "cl_fopen env"
  shows "\<exists>pre. anerd_client device size' port interval env cs
           = (pre @ fst (anerd_client_loop (cl_socket env) size' interval (broadcast_addr port)
                           (replicate (nat size') 0) cs),
              snd (anerd_client_loop (cl_socket env) size' interval (broadcast_addr port)
                     (replicate (nat size') 0) cs))"
  using assms by (simp add: anerd_client_def Let_def split: prod.splits)

text \<open>
  \<^bold>\<open>C2\<close> (every failure of the Donor's set-up ends the process) does not hold of the
  code: after a failed \<^verbatim>\<open>socket\<close> or \<^verbatim>\<open>setsockopt\<close> the Donor prints the error and goes
  on. Here both fail, with the default size, port and interval; the Donor enters its loop
  and calls \<^verbatim>\<open>sendto\<close> on the socket \<open>-1\<close>.
\<close>

theorem donor_socket_failure_not_fatal:
  "anerd_client ''/dev/urandom'' 64 26373 60
     \<lparr>cl_calloc = True, cl_socket = - 1, cl_setsockopt = - 1, cl_fopen = True\<rparr>
     [\<lparr>cl_pool_out = replicate 64 1, cl_tx_res = - 1\<rparr>]
   = ([Perror ''socket'', Perror ''setsockopt (SO_BROADCAST)'', Fopen ''/dev/urandom'' ''r'',
       Fread 64 (replicate 64 1), Syslog ''Donated'' 64 (broadcast_addr 26373),
       Sendto (- 1) (replicate 64 1) (broadcast_addr 26373), Sleep 60],
      Running)"
  by code_simp

text \<open>
  \<^bold>\<open>C8.\<close> A Donor started with \<open>interval \<le> 0\<close> sends no datagram and terminates at once:
  its trace holds no \<^verbatim>\<open>sendto\<close>, it returns 0 when the set-up succeeded (and exits with 1
  when \<^verbatim>\<open>calloc\<close> or \<^verbatim>\<open>fopen\<close> failed), and it runs no cycle, since the run is the same
  whatever the cycles would deliver.
\<close>

theorem donor_nonpositive_interval:
  assumes "interval \<le> 0"
  shows "filter is_sendto (fst (anerd_client device size' port interval env cs)) = []
       \<and> (if cl_calloc env \<and> cl_fopen env
          then snd (anerd_client device size' port interval env cs) = Returned 0
          else snd (anerd_client device size' port interval env cs) = Exited 1)
       \<and> anerd_client device size' port interval env cs
          = anerd_client device size' port interval env []"
  using assms by (simp add: anerd_client_def anerd_client_loop_exit Let_def)

theorem donor_nonpositive_interval_witness:
  "(0::int) \<le> 0
   \<and> anerd_client ''/dev/urandom'' 64 26373 0
        \<lparr>cl_calloc = True, cl_socket = 3, cl_setsockopt = 0, cl_fopen = True\<rparr>
        [\<lparr>cl_pool_out = [1, 2, 3], cl_tx_res = 64\<rparr>]
      = ([Fopen ''/dev/urandom'' ''r'', Close 3, Free, Fclose], Returned 0)"
  using donor_nonpositive_interval [of 0 "''/dev/urandom''" 64 26373
        "\<lparr>cl_calloc = True, cl_socket = 3, cl_setsockopt = 0, cl_fopen = True\<rparr>"
        "[\<lparr>cl_pool_out = [1, 2, 3], cl_tx_res = 64\<rparr>]"]
  by (simp add: anerd_client_def)

text \<open>
  \<^bold>\<open>C9.\<close> A cycle of the Donor in which \<^verbatim>\<open>fread\<close> returns 0 bytes consists of the read, the
  report \<^verbatim>\<open>perror("fread")\<close> and \<^verbatim>\<open>sleep(interval)\<close>: no datagram is sent, the process goes
  on, and the next cycle starts from the same buffer.
\<close>

theorem donor_empty_read:
  assumes "0 < interval" and "take (nat size') (cl_pool_out c) = []"
  shows "anerd_client_loop sock size' interval addr d (c # cs)
         = ([Fread size' [], Perror ''fread'', Sleep interval]
              @ fst (anerd_client_loop sock size' interval addr d cs),
            snd (anerd_client_loop sock size' interval addr d cs))"
proof -
  have "fread_into d size' (cl_pool_out c) = ([], d)"
    unfolding fread_into_def Let_def assms(2) by simp
  then show ?thesis
    using assms(1) by (simp split: prod.splits)
qed

theorem donor_empty_read_witness:
  "(0::int) < 60
   \<and> take (nat 64) (cl_pool_out \<lparr>cl_pool_out = [], cl_tx_res = 0\<rparr>) = ([]::byte list)
   \<and> anerd_client_loop 3 64 60 (broadcast_addr 26373) (replicate 64 0)
        [\<lparr>cl_pool_out = [], cl_tx_res = 0\<rparr>]
      = ([Fread 64 [], Perror ''fread'', Sleep 60], Running)"
  using donor_empty_read [of 60 64 "\<lparr>cl_pool_out = [], cl_tx_res = 0\<rparr>" 3
        "broadcast_addr 26373" "replicate 64 0" "[]"]
  by simp





end
